theory Spec2Isabelle
  imports Main
begin

section \<open>Python values\<close>

text \<open>
  A Python \<open>bytes\<close> object is a list of 8-bit values; HOL's \<open>char\<close> is exactly an
  8-bit value, so \<open>bytes\<close> is \<open>char list\<close>. A Python \<open>str\<close> whose content matters
  (a banner, the decoded \<open>raw_text\<close>) is a list of Unicode code points. Labels that are
  only carried around (service names, peer addresses, messages) are HOL strings.
\<close>

type_synonym bytes = "char list"
type_synonym ustr = "nat list"

subsection \<open>Exceptions\<close>

text \<open>
  The exception classes the two modules can meet. \<open>CancelledError\<close>, \<open>KeyboardInterrupt\<close>
  and \<open>SystemExit\<close> derive from \<open>BaseException\<close> only, so \<open>except Exception\<close> does not
  catch them, while a bare \<open>except:\<close> does.
\<close>

datatype exc_class =
    AsyncioTimeoutError
  | PermissionError
  | OSError
  | AttributeError
  | TypeError
  | KeyError
  | ValueError
  | UnicodeDecodeError
  | UnicodeEncodeError
  | RuntimeError
  | CancelledError
  | KeyboardInterrupt
  | SystemExit

datatype exn = Exn (exn_class: exc_class) (exn_msg: string)

fun is_Exception :: "exn \<Rightarrow> bool" where
  "is_Exception (Exn CancelledError m) = False"
| "is_Exception (Exn KeyboardInterrupt m) = False"
| "is_Exception (Exn SystemExit m) = False"
| "is_Exception (Exn c m) = True"

subsection \<open>Decimal text of an integer\<close>

fun str_of_nat :: "nat \<Rightarrow> string" where
  "str_of_nat n =
     (if n < 10 then [char_of (48 + n)]
      else str_of_nat (n div 10) @ [char_of (48 + n mod 10)])"

declare str_of_nat.simps [simp del]

subsection \<open>\<open>binascii.hexlify\<close>\<close>

definition hex_digit :: "nat \<Rightarrow> char" where
  "hex_digit n = (if n < 10 then char_of (48 + n) else char_of (87 + n))"

fun hexlify :: "bytes \<Rightarrow> string" where
  "hexlify [] = []"
| "hexlify (c # cs) =
     hex_digit (of_char c div 16) # hex_digit (of_char c mod 16) # hexlify cs"

subsection \<open>UTF-8\<close>

text \<open>
  \<open>bytes.decode("utf-8", errors=...)\<close>. \<open>utf8_next\<close> looks at the sequence that starts
  the input and gives the code point it encodes, or \<open>None\<close> for a malformed sequence,
  and the number of bytes that the code point or the error spans. With
  \<open>errors="replace"\<close> a malformed span becomes U+FFFD and decoding goes on after it;
  the default strict mode raises \<open>UnicodeDecodeError\<close>.
\<close>

datatype errors_mode = Strict | Replace

definition is_cont :: "nat \<Rightarrow> bool" where
  "is_cont b = (128 \<le> b \<and> b < 192)"

definition second3_ok :: "nat \<Rightarrow> nat \<Rightarrow> bool" where
  "second3_ok b b2 = (is_cont b2 \<and> \<not> (if b2 < 160 then b = 224 else b = 237))"

definition second4_ok :: "nat \<Rightarrow> nat \<Rightarrow> bool" where
  "second4_ok b b2 = (is_cont b2 \<and> \<not> (if b2 < 144 then b = 240 else b = 244))"

fun utf8_next :: "bytes \<Rightarrow> nat option \<times> nat" where
  "utf8_next [] = (None, 0)"
| "utf8_next (c # cs) =
     (let b = of_char c in
      if b < 128 then (Some b, 1)
      else if b < 194 then (None, 1)
      else if b < 224 then
        (case cs of
           [] \<Rightarrow> (None, 1)
         | c2 # cs2 \<Rightarrow>
             if is_cont (of_char c2) then (Some ((b - 192) * 64 + (of_char c2 - 128)), 2)
             else (None, 1))
      else if b < 240 then
        (case cs of
           [] \<Rightarrow> (None, 1)
         | c2 # cs2 \<Rightarrow>
             if \<not> second3_ok b (of_char c2) then (None, 1)
             else
               (case cs2 of
                  [] \<Rightarrow> (None, 2)
                | c3 # cs3 \<Rightarrow>
                    if is_cont (of_char c3)
                    then (Some ((b - 224) * 4096 + (of_char c2 - 128) * 64 + (of_char c3 - 128)), 3)
                    else (None, 2)))
      else if b < 245 then
        (case cs of
           [] \<Rightarrow> (None, 1)
         | c2 # cs2 \<Rightarrow>
             if \<not> second4_ok b (of_char c2) then (None, 1)
             else
               (case cs2 of
                  [] \<Rightarrow> (None, 2)
                | c3 # cs3 \<Rightarrow>
                    if \<not> is_cont (of_char c3) then (None, 2)
                    else
                      (case cs3 of
                         [] \<Rightarrow> (None, 3)
                       | c4 # cs4 \<Rightarrow>
                           if is_cont (of_char c4)
                           then (Some ((b - 240) * 262144 + (of_char c2 - 128) * 4096
                                        + (of_char c3 - 128) * 64 + (of_char c4 - 128)), 4)
                           else (None, 3))))
      else (None, 1))"

fun utf8_decode :: "errors_mode \<Rightarrow> bytes \<Rightarrow> exn + ustr" where
  "utf8_decode m [] = Inr []"
| "utf8_decode m (c # cs) =
     (case utf8_next (c # cs) of
        (Some cp, n) \<Rightarrow>
          (case utf8_decode m (drop (n - 1) cs) of
             Inl e \<Rightarrow> Inl e
           | Inr s \<Rightarrow> Inr (cp # s))
      | (None, n) \<Rightarrow>
          (case m of
             Strict \<Rightarrow> Inl (Exn UnicodeDecodeError ''invalid utf-8 sequence'')
           | Replace \<Rightarrow>
               (case utf8_decode m (drop (n - 1) cs) of
                  Inl e \<Rightarrow> Inl e
                | Inr s \<Rightarrow> Inr (65533 # s))))"

text \<open>
  \<open>str.encode()\<close>: UTF-8, strict. A lone surrogate (U+D800 to U+DFFF) cannot be
  encoded and raises \<open>UnicodeEncodeError\<close>. A Python \<open>str\<close> holds no code point above
  U+10FFFF, so the last branch is only ever used below that bound.
\<close>

definition utf8_char :: "nat \<Rightarrow> bytes option" where
  "utf8_char cp =
     (if cp < 128 then Some [char_of cp]
      else if cp < 2048 then Some [char_of (192 + cp div 64), char_of (128 + cp mod 64)]
      else if 55296 \<le> cp \<and> cp < 57344 then None
      else if cp < 65536 then
        Some [char_of (224 + cp div 4096), char_of (128 + cp div 64 mod 64),
              char_of (128 + cp mod 64)]
      else
        Some [char_of (240 + cp div 262144), char_of (128 + cp div 4096 mod 64),
              char_of (128 + cp div 64 mod 64), char_of (128 + cp mod 64)])"

fun utf8_encode :: "ustr \<Rightarrow> exn + bytes" where
  "utf8_encode [] = Inr []"
| "utf8_encode (cp # s) =
     (case utf8_char cp of
        None \<Rightarrow> Inl (Exn UnicodeEncodeError ''surrogates not allowed'')
      | Some bs \<Rightarrow>
          (case utf8_encode s of
             Inl e \<Rightarrow> Inl e
           | Inr rest \<Rightarrow> Inr (bs @ rest)))"

subsection \<open>The \<open>unicode_escape\<close> codec\<close>

text \<open>
  \<open>bytes.decode('unicode_escape')\<close>, strict. A byte other than a backslash stands for
  the code point of the same number (Latin-1). After a backslash, \<open>escape\<close> gives the
  code points the escape stands for and the number of bytes it takes after the
  character that selects it. Character names (\<open>\N{...}\<close>) are resolved by the Unicode
  character database, which is a table of the Python runtime: it is the parameter
  \<open>names\<close>.
\<close>

definition hex_val :: "char \<Rightarrow> nat option" where
  "hex_val c =
     (let b = (of_char c :: nat) in
      if 48 \<le> b \<and> b \<le> 57 then Some (b - 48)
      else if 97 \<le> b \<and> b \<le> 102 then Some (b - 87)
      else if 65 \<le> b \<and> b \<le> 70 then Some (b - 55)
      else None)"

fun hex_number :: "nat \<Rightarrow> bytes \<Rightarrow> nat option" where
  "hex_number acc [] = Some acc"
| "hex_number acc (c # cs) =
     (case hex_val c of
        None \<Rightarrow> None
      | Some d \<Rightarrow> hex_number (acc * 16 + d) cs)"

definition hex_escape :: "nat \<Rightarrow> bytes \<Rightarrow> exn + (ustr \<times> nat)" where
  "hex_escape count rest =
     (if length rest < count then Inl (Exn UnicodeDecodeError ''truncated escape'')
      else
        (case hex_number 0 (take count rest) of
           None \<Rightarrow> Inl (Exn UnicodeDecodeError ''truncated escape'')
         | Some ch \<Rightarrow>
             if ch > 1114111 then Inl (Exn UnicodeDecodeError ''illegal Unicode character'')
             else Inr ([ch], count)))"

definition is_octal :: "char \<Rightarrow> bool" where
  "is_octal c = (48 \<le> (of_char c :: nat) \<and> (of_char c :: nat) \<le> 55)"

definition octal_escape :: "char \<Rightarrow> bytes \<Rightarrow> ustr \<times> nat" where
  "octal_escape c rest =
     (let d1 = of_char c - 48 in
      case rest of
        [] \<Rightarrow> ([d1], 0)
      | c2 # rest2 \<Rightarrow>
          if is_octal c2 then
            (let d2 = d1 * 8 + (of_char c2 - 48) in
             case rest2 of
               [] \<Rightarrow> ([d2], 1)
             | c3 # rest3 \<Rightarrow>
                 if is_octal c3 then ([d2 * 8 + (of_char c3 - 48)], 2) else ([d2], 1))
          else ([d1], 0))"

definition name_escape :: "(string \<Rightarrow> nat option) \<Rightarrow> bytes \<Rightarrow> exn + (ustr \<times> nat)" where
  "name_escape names rest =
     (case rest of
        [] \<Rightarrow> Inl (Exn UnicodeDecodeError ''malformed character name escape'')
      | c # cs \<Rightarrow>
          if c \<noteq> CHR ''{'' then Inl (Exn UnicodeDecodeError ''malformed character name escape'')
          else
            (let name = takeWhile (\<lambda>x. x \<noteq> CHR ''}'') cs in
             if length name = length cs
             then Inl (Exn UnicodeDecodeError ''malformed character name escape'')
             else if name = []
             then Inl (Exn UnicodeDecodeError ''malformed character name escape'')
             else
               (case names name of
                  None \<Rightarrow> Inl (Exn UnicodeDecodeError ''unknown Unicode character name'')
                | Some ch \<Rightarrow> Inr ([ch], length name + 2))))"

definition escape :: "(string \<Rightarrow> nat option) \<Rightarrow> char \<Rightarrow> bytes \<Rightarrow> exn + (ustr \<times> nat)" where
  "escape names e rest =
     (if e = CHR 0x0A then Inr ([], 0)
      else if e = CHR 0x5C then Inr ([92], 0)
      else if e = CHR 0x27 then Inr ([39], 0)
      else if e = CHR 0x22 then Inr ([34], 0)
      else if e = CHR ''b'' then Inr ([8], 0)
      else if e = CHR ''f'' then Inr ([12], 0)
      else if e = CHR ''t'' then Inr ([9], 0)
      else if e = CHR ''n'' then Inr ([10], 0)
      else if e = CHR ''r'' then Inr ([13], 0)
      else if e = CHR ''v'' then Inr ([11], 0)
      else if e = CHR ''a'' then Inr ([7], 0)
      else if is_octal e then Inr (octal_escape e rest)
      else if e = CHR ''x'' then hex_escape 2 rest
      else if e = CHR ''u'' then hex_escape 4 rest
      else if e = CHR ''U'' then hex_escape 8 rest
      else if e = CHR ''N'' then name_escape names rest
      else Inr ([92, of_char e], 0))"

fun unicode_escape_decode :: "(string \<Rightarrow> nat option) \<Rightarrow> bytes \<Rightarrow> exn + ustr" where
  "unicode_escape_decode names [] = Inr []"
| "unicode_escape_decode names [c] =
     (if c = CHR 0x5C then Inl (Exn UnicodeDecodeError ''backslash at end of string'')
      else Inr [of_char c])"
| "unicode_escape_decode names (c # e # rest) =
     (if c = CHR 0x5C then
        (case escape names e rest of
           Inl x \<Rightarrow> Inl x
         | Inr (out, k) \<Rightarrow>
             (case unicode_escape_decode names (drop k rest) of
                Inl x \<Rightarrow> Inl x
              | Inr s \<Rightarrow> Inr (out @ s)))
      else
        (case unicode_escape_decode names (e # rest) of
           Inl x \<Rightarrow> Inl x
         | Inr s \<Rightarrow> Inr (of_char c # s)))"

subsection \<open>\<open>.format\<close>\<close>

text \<open>
  \<open>obj.format(**kw)\<close> looks the method up on the object: \<open>str\<close> has it, \<open>bytes\<close> has
  not (Python 3 gives \<open>bytes\<close> only \<open>%\<close>-formatting), and the lookup raises
  \<open>AttributeError\<close>. \<open>str_format\<close> covers templates whose replacement fields are plain
  names, such as the one of \<open>handlers.py\<close>; the second argument is the field name
  being read, if any.
\<close>

datatype pyval = PyBytes bytes | PyStr string

fun str_format :: "(string \<times> string) list \<Rightarrow> string option \<Rightarrow> string \<Rightarrow> exn + string" where
  "str_format kw None [] = Inr []"
| "str_format kw (Some nm) [] = Inl (Exn ValueError ''expected } before end of string'')"
| "str_format kw None (c # cs) =
     (if c = CHR ''{'' then str_format kw (Some []) cs
      else if c = CHR ''}'' then Inl (Exn ValueError ''Single } encountered in format string'')
      else
        (case str_format kw None cs of
           Inl e \<Rightarrow> Inl e
         | Inr s \<Rightarrow> Inr (c # s)))"
| "str_format kw (Some nm) (c # cs) =
     (if c = CHR ''}'' then
        (case map_of kw nm of
           None \<Rightarrow> Inl (Exn KeyError nm)
         | Some v \<Rightarrow>
             (case str_format kw None cs of
                Inl e \<Rightarrow> Inl e
              | Inr s \<Rightarrow> Inr (v @ s)))
      else str_format kw (Some (nm @ [c])) cs)"

fun py_format :: "pyval \<Rightarrow> (string \<times> string) list \<Rightarrow> exn + string" where
  "py_format (PyBytes b) kw = Inl (Exn AttributeError ''bytes object has no attribute format'')"
| "py_format (PyStr t) kw = str_format kw None t"

text \<open>\<open>str.encode()\<close> of a HOL string label: the code points of its characters, as UTF-8.\<close>

definition str_encode :: "string \<Rightarrow> exn + bytes" where
  "str_encode s = utf8_encode (map of_char s)"

section \<open>Connections, contexts and log records\<close>

text \<open>
  The dictionaries of the source have fixed keys, so each is a record. An absent key and
  a key bound to \<open>None\<close> are both \<open>None\<close>: the source reads these keys with \<open>.get\<close>,
  which does not tell them apart.
\<close>

record interaction =
  rec_ts :: string
  rec_role :: string
  rec_peer :: "string option"
  rec_peer_port :: "nat option"
  rec_service :: "string option"
  raw_hex :: string
  raw_text :: "ustr option"

record handler_event =
  ev_ts :: string
  ev_event :: string
  ev_port :: "nat option"
  ev_handler :: "string option"
  ev_error :: string

datatype log_entry = Interaction interaction | HandlerEvent handler_event

text \<open>
  A callable logger is what it does with a record: it raises (\<open>Some e\<close>) or returns.
  \<open>ctx_logger = None\<close> is a context whose \<open>"logger"\<close> is absent or not callable.
\<close>

type_synonym logger_fn = "log_entry \<Rightarrow> exn option"

record ctx =
  ctx_logger :: "logger_fn option"
  ctx_peer :: "string option"
  ctx_peer_port :: "nat option"
  ctx_service :: "string option"

record listener =
  port :: "nat option"
  handler :: "string option"
  proto :: "string option"
  banner :: "ustr option"
  echo :: bool
  service :: "string option"

text \<open>
  What a handler does to its connection and to the log is recorded, in order, in a
  trace. What the environment answers is read from the world: the peer name of the
  transport, the outcome of the \<open>i\<close>-th read, of the \<open>i\<close>-th drain and of
  \<open>wait_closed\<close>, the \<open>i\<close>-th reading of the clock, and whether appending a record to
  \<open>logs/interactions.jsonl\<close> fails.
\<close>

datatype event =
    ReadCall
  | Wrote bytes
  | Closed
  | Logged log_entry
  | Appended log_entry

record world =
  peername :: "(string \<times> nat) option"
  read_result :: "nat \<Rightarrow> exn + bytes"
  drain_result :: "nat \<Rightarrow> exn option"
  wait_closed_result :: "exn option"
  utcnow :: "nat \<Rightarrow> string"
  file_append_result :: "log_entry \<Rightarrow> exn option"
  unicode_names :: "string \<Rightarrow> nat option"
  n_read :: nat
  n_drain :: nat
  n_now :: nat
  trace :: "event list"

definition reader_read :: "nat \<Rightarrow> world \<Rightarrow> (exn + bytes) \<times> world" where
  "reader_read n w =
     ((case read_result w (n_read w) of
         Inl e \<Rightarrow> Inl e
       | Inr d \<Rightarrow> Inr (take n d)),
      w\<lparr>n_read := Suc (n_read w), trace := trace w @ [ReadCall]\<rparr>)"

definition writer_write :: "bytes \<Rightarrow> world \<Rightarrow> world" where
  "writer_write d w = w\<lparr>trace := trace w @ [Wrote d]\<rparr>"

definition writer_drain :: "world \<Rightarrow> exn option \<times> world" where
  "writer_drain w = (drain_result w (n_drain w), w\<lparr>n_drain := Suc (n_drain w)\<rparr>)"

definition writer_close :: "world \<Rightarrow> world" where
  "writer_close w = w\<lparr>trace := trace w @ [Closed]\<rparr>"

definition writer_wait_closed :: "world \<Rightarrow> exn option \<times> world" where
  "writer_wait_closed w = (wait_closed_result w, w)"

definition now_iso :: "world \<Rightarrow> string \<times> world" where
  "now_iso w = (utcnow w (n_now w), w\<lparr>n_now := Suc (n_now w)\<rparr>)"

section \<open>\<open>handlers.py\<close>\<close>

subsection \<open>\<open>log_interaction\<close>\<close>

text \<open>
  Lines 13 to 26: the record. The decode sits in \<open>try ... except Exception: pass\<close>;
  a decode can only raise \<open>UnicodeDecodeError\<close>, which that clause catches, and the
  field then keeps its initial \<open>None\<close>.
\<close>

definition interaction_record :: "ctx \<Rightarrow> string \<Rightarrow> bytes \<Rightarrow> string \<Rightarrow> interaction" where
  "interaction_record c role data_bytes ts =
     (let rcd = \<lparr>rec_ts = ts, rec_role = role, rec_peer = ctx_peer c,
                 rec_peer_port = ctx_peer_port c, rec_service = ctx_service c,
                 raw_hex = hexlify data_bytes, raw_text = None\<rparr>
      in case utf8_decode Replace data_bytes of
           Inl e \<Rightarrow> rcd
         | Inr s \<Rightarrow> rcd\<lparr>raw_text := Some s\<rparr>)"

text \<open>Lines 28 to 34: the callable logger, or else the append to the fallback file.\<close>

definition emit :: "ctx \<Rightarrow> log_entry \<Rightarrow> world \<Rightarrow> (exn + unit) \<times> world" where
  "emit c entry w =
     (case ctx_logger c of
        Some f \<Rightarrow>
          (case f entry of
             Some e \<Rightarrow> (Inl e, w)
           | None \<Rightarrow> (Inr (), w\<lparr>trace := trace w @ [Logged entry]\<rparr>))
      | None \<Rightarrow>
          (case file_append_result w entry of
             Some e \<Rightarrow> (Inl e, w)
           | None \<Rightarrow> (Inr (), w\<lparr>trace := trace w @ [Appended entry]\<rparr>)))"

definition log_interaction :: "ctx \<Rightarrow> string \<Rightarrow> bytes \<Rightarrow> world \<Rightarrow> (exn + unit) \<times> world" where
  "log_interaction c role data_bytes w =
     (case now_iso w of
        (ts, w1) \<Rightarrow> emit c (Interaction (interaction_record c role data_bytes ts)) w1)"

subsection \<open>The peer assignment shared by the three handlers\<close>

text \<open>
  \<^verbatim>\<open>ctx["peer"], ctx["peer_port"] = peer[0], peer[1] if peer else (None, None)\<close>

  The conditional expression binds tighter than the comma, so the right-hand side is the
  pair of \<open>peer[0]\<close> and \<open>(peer[1] if peer else (None, None))\<close>, and \<open>peer[0]\<close> is
  evaluated first: with \<open>peer = None\<close> it raises \<open>TypeError\<close>. Once \<open>peer[0]\<close> has a
  value, \<open>peer\<close> is a non-empty tuple and the conditional takes \<open>peer[1]\<close>.
\<close>

definition assign_peer :: "world \<Rightarrow> ctx \<Rightarrow> exn + ctx" where
  "assign_peer w c =
     (case peername w of
        None \<Rightarrow> Inl (Exn TypeError ''NoneType object is not subscriptable'')
      | Some (h, p) \<Rightarrow> Inr (c\<lparr>ctx_peer := Some h, ctx_peer_port := Some p\<rparr>))"

text \<open>\<open>await asyncio.wait_for(reader.read(n), timeout=...)\<close> under
  \<open>except asyncio.TimeoutError: data = b""\<close>.\<close>

definition read_with_timeout :: "nat \<Rightarrow> world \<Rightarrow> (exn + bytes) \<times> world" where
  "read_with_timeout n w =
     (case reader_read n w of
        (Inr d, w1) \<Rightarrow> (Inr d, w1)
      | (Inl e, w1) \<Rightarrow>
          if exn_class e = AsyncioTimeoutError then (Inr [], w1) else (Inl e, w1))"

subsection \<open>\<open>http_handler\<close>\<close>

definition LF :: char where
  "LF = CHR 0x0A"

text \<open>
  Lines 37 to 42. The literal has the prefix \<open>b\<close>: it is a \<open>bytes\<close> object. Its
  lines end in a bare LF, and a last LF follows the body field.
\<close>

definition http_template :: string where
  "http_template =
     ''HTTP/1.1 200 OK'' @ [LF]
     @ ''Content-Type: text/html; charset=utf-8'' @ [LF]
     @ ''Content-Length: {length}'' @ [LF]
     @ [LF]
     @ ''{body}'' @ [LF]"

definition HTTP_RESPONSE :: pyval where
  "HTTP_RESPONSE = PyBytes http_template"

definition http_body :: string where
  "http_body =
     ''<html><body><h1>Welcome</h1><p>This is a honeypot HTTP page.</p></body></html>''"

definition http_handler :: "world \<Rightarrow> ctx \<Rightarrow> (exn + unit) \<times> world" where
  "http_handler w c =
     (case assign_peer w c of
        Inl e \<Rightarrow> (Inl e, w)
      | Inr c1 \<Rightarrow>
          (let c2 = c1\<lparr>ctx_service := Some ''http''\<rparr> in
           case read_with_timeout 4096 w of
             (Inl e, w1) \<Rightarrow> (Inl e, w1)
           | (Inr data, w1) \<Rightarrow>
               (case (if data \<noteq> [] then log_interaction c2 ''client'' data w1
                      else (Inr (), w1)) of
                  (Inl e, w2) \<Rightarrow> (Inl e, w2)
                | (Inr u, w2) \<Rightarrow>
                    (case py_format HTTP_RESPONSE
                            [(''length'', str_of_nat (length http_body)),
                             (''body'', http_body)] of
                       Inl e \<Rightarrow> (Inl e, w2)
                     | Inr text \<Rightarrow>
                         (case str_encode text of
                            Inl e \<Rightarrow> (Inl e, w2)
                          | Inr resp \<Rightarrow>
                              (case log_interaction c2 ''server'' resp w2 of
                                 (Inl e, w3) \<Rightarrow> (Inl e, w3)
                               | (Inr u', w3) \<Rightarrow>
                                   (let w4 = writer_write resp w3;
                                        w5 = snd (writer_drain w4);
                                        w6 = writer_close w5;
                                        w7 = snd (writer_wait_closed w6)
                                    in (Inr (), w7))))))))"

subsection \<open>\<open>banner_handler\<close>\<close>

text \<open>
  The first \<open>try\<close> block (write, drain, log) ends at the first call that raises, and its
  bare \<open>except:\<close> swallows whatever was raised.
\<close>

definition banner_handler :: "world \<Rightarrow> ctx \<Rightarrow> bytes \<Rightarrow> (exn + unit) \<times> world" where
  "banner_handler w c bnr =
     (case assign_peer w c of
        Inl e \<Rightarrow> (Inl e, w)
      | Inr c1 \<Rightarrow>
          (let c2 = c1\<lparr>ctx_service := Some ''banner''\<rparr>;
               w1 = writer_write bnr w;
               w3 = (case writer_drain w1 of
                       (Some e, w2) \<Rightarrow> w2
                     | (None, w2) \<Rightarrow> snd (log_interaction c2 ''server'' bnr w2))
           in case read_with_timeout 2048 w3 of
                (Inl e, w4) \<Rightarrow> (Inl e, w4)
              | (Inr data, w4) \<Rightarrow>
                  (case (if data \<noteq> [] then log_interaction c2 ''client'' data w4
                         else (Inr (), w4)) of
                     (Inl e, w5) \<Rightarrow> (Inl e, w5)
                   | (Inr u, w5) \<Rightarrow>
                       (let w6 = writer_close w5;
                            w7 = snd (writer_wait_closed w6)
                        in (Inr (), w7)))))"

subsection \<open>\<open>generic_tcp_handler\<close>\<close>

text \<open>
  One turn of the \<open>while True\<close> loop: it leaves the loop by \<open>break\<close>, leaves it by an
  exception, or goes round again. The loop itself runs until the peer closes or an
  operation raises, which may be never: not returning is the value \<open>None\<close>.
\<close>

datatype turn = Break world | Raised exn world | Again world

definition generic_turn :: "bool \<Rightarrow> ctx \<Rightarrow> world \<Rightarrow> turn" where
  "generic_turn ech c w =
     (case reader_read 4096 w of
        (Inl e, w1) \<Rightarrow> Raised e w1
      | (Inr data, w1) \<Rightarrow>
          if data = [] then Break w1
          else
            (case log_interaction c ''client'' data w1 of
               (Inl e, w2) \<Rightarrow> Raised e w2
             | (Inr u, w2) \<Rightarrow>
                 if ech then
                   (case writer_drain (writer_write data w2) of
                      (Some e, w3) \<Rightarrow> Raised e w3
                    | (None, w3) \<Rightarrow> Again w3)
                 else Again w2))"

partial_function (option) generic_loop :: "bool \<Rightarrow> ctx \<Rightarrow> world \<Rightarrow> (exn option \<times> world) option" where
  "generic_loop ech c w =
     (case generic_turn ech c w of
        Break w1 \<Rightarrow> Some (None, w1)
      | Raised e w1 \<Rightarrow> Some (Some e, w1)
      | Again w1 \<Rightarrow> generic_loop ech c w1)"

declare generic_loop.simps [code]

text \<open>
  \<open>except Exception: pass\<close> keeps an exception that is not an \<open>Exception\<close>; the
  \<open>finally\<close> block closes the writer in every case, and the kept exception is raised
  again after it.
\<close>

definition generic_tcp_handler :: "world \<Rightarrow> ctx \<Rightarrow> bool \<Rightarrow> ((exn + unit) \<times> world) option" where
  "generic_tcp_handler w c ech =
     (case assign_peer w c of
        Inl e \<Rightarrow> Some (Inl e, w)
      | Inr c1 \<Rightarrow>
          (let c2 = c1\<lparr>ctx_service :=
                         Some (case ctx_service c1 of None \<Rightarrow> ''tcp'' | Some s \<Rightarrow> s)\<rparr>
           in case generic_loop ech c2 w of
                None \<Rightarrow> None
              | Some (r, w1) \<Rightarrow>
                  (let w2 = writer_close w1;
                       w3 = snd (writer_wait_closed w2)
                   in case r of
                        None \<Rightarrow> Some (Inr (), w3)
                      | Some e \<Rightarrow>
                          if is_Exception e then Some (Inr (), w3) else Some (Inl e, w3))))"

section \<open>\<open>honeypot.py\<close>\<close>

subsection \<open>The handler a listener selects\<close>

definition default_banner :: ustr where
  "default_banner = map of_char (''SSH-2.0-OpenSSH_7.4'' @ [CHR 0x0D, CHR 0x0A])"

text \<open>Line 52: \<open>.encode().decode('unicode_escape').encode()\<close>.\<close>

definition banner_bytes :: "(string \<Rightarrow> nat option) \<Rightarrow> ustr \<Rightarrow> exn + bytes" where
  "banner_bytes names s =
     (case utf8_encode s of
        Inl e \<Rightarrow> Inl e
      | Inr b \<Rightarrow>
          (case unicode_escape_decode names b of
             Inl e \<Rightarrow> Inl e
           | Inr t \<Rightarrow> utf8_encode t))"

definition banner_h :: "listener \<Rightarrow> world \<Rightarrow> ctx \<Rightarrow> (exn + unit) \<times> world" where
  "banner_h l w c =
     (case banner_bytes (unicode_names w)
             (case banner l of None \<Rightarrow> default_banner | Some s \<Rightarrow> s) of
        Inl e \<Rightarrow> (Inl e, w)
      | Inr b \<Rightarrow> banner_handler w c b)"

definition str_of_port :: "nat option \<Rightarrow> string" where
  "str_of_port p = (case p of None \<Rightarrow> ''None'' | Some n \<Rightarrow> str_of_nat n)"

definition str_of_name :: "string option \<Rightarrow> string" where
  "str_of_name h = (case h of None \<Rightarrow> ''None'' | Some s \<Rightarrow> s)"

definition generic_h :: "listener \<Rightarrow> world \<Rightarrow> ctx \<Rightarrow> ((exn + unit) \<times> world) option" where
  "generic_h l w c =
     generic_tcp_handler w
       (c\<lparr>ctx_service :=
            Some (case service l of None \<Rightarrow> ''tcp_'' @ str_of_port (port l) | Some s \<Rightarrow> s)\<rparr>)
       (echo l)"

definition run_handler :: "listener \<Rightarrow> world \<Rightarrow> ctx \<Rightarrow> ((exn + unit) \<times> world) option" where
  "run_handler l w c =
     (if handler l = Some ''http'' then Some (http_handler w c)
      else if handler l = Some ''banner'' then Some (banner_h l w c)
      else generic_h l w c)"

subsection \<open>\<open>client_connected\<close>\<close>

text \<open>Lines 64 to 70: the context of an accepted connection.\<close>

definition accept_ctx :: "logger_fn option \<Rightarrow> world \<Rightarrow> ctx" where
  "accept_ctx lg w =
     (let ctx_base = \<lparr>ctx_logger = lg, ctx_peer = None, ctx_peer_port = None,
                      ctx_service = None\<rparr>
      in case peername w of
           Some (h, p) \<Rightarrow> ctx_base\<lparr>ctx_peer := Some h, ctx_peer_port := Some p\<rparr>
         | None \<Rightarrow> ctx_base\<lparr>ctx_peer := None, ctx_peer_port := None\<rparr>)"

text \<open>Line 82 calls the listener's logger itself, not the one of the context.\<close>

definition call_logger :: "logger_fn option \<Rightarrow> log_entry \<Rightarrow> world \<Rightarrow> (exn + unit) \<times> world" where
  "call_logger lg entry w =
     (case lg of
        None \<Rightarrow> (Inl (Exn TypeError ''NoneType object is not callable''), w)
      | Some f \<Rightarrow>
          (case f entry of
             Some e \<Rightarrow> (Inl e, w)
           | None \<Rightarrow> (Inr (), w\<lparr>trace := trace w @ [Logged entry]\<rparr>)))"

definition client_connected :: "listener \<Rightarrow> logger_fn option \<Rightarrow> world \<Rightarrow> ((exn + unit) \<times> world) option" where
  "client_connected l lg w =
     (case run_handler l w (accept_ctx lg w) of
        None \<Rightarrow> None
      | Some (Inr u, w1) \<Rightarrow> Some (Inr (), w1)
      | Some (Inl e, w1) \<Rightarrow>
          if is_Exception e then
            (case now_iso w1 of
               (ts, w2) \<Rightarrow>
                 Some (call_logger lg
                         (HandlerEvent \<lparr>ev_ts = ts, ev_event = ''handler_exception'',
                                        ev_port = port l, ev_handler = handler l,
                                        ev_error = exn_msg e\<rparr>) w2))
          else Some (Inl e, w1))"

subsection \<open>\<open>start_listener\<close> and \<open>run_from_config\<close>\<close>

text \<open>
  What the operating system answers at start-up: whether preparing the log directory
  and its file raises, the logger that \<open>jsonl_logger_factory\<close> returns, and for the
  \<open>i\<close>-th call of \<open>asyncio.start_server\<close> either the exception it raises or the
  addresses of the sockets it bound, as text.
\<close>

record startup =
  logdir_result :: "exn option"
  made_logger :: logger_fn
  bind_result :: "nat \<Rightarrow> exn + string"

record server =
  srv_host :: string
  srv_listener :: listener
  srv_logger :: "logger_fn option"
  srv_addrs :: string

record config =
  listeners :: "listener list"
  log_dir :: "string option"

definition start_listener :: "startup \<Rightarrow> nat \<Rightarrow> string \<Rightarrow> listener \<Rightarrow> logger_fn option \<Rightarrow> (exn + server) \<times> string list" where
  "start_listener env i bind_host l lg =
     (case bind_result env i of
        Inl e \<Rightarrow> (Inl e, [])
      | Inr addrs \<Rightarrow>
          (Inr \<lparr>srv_host = bind_host, srv_listener = l, srv_logger = lg, srv_addrs = addrs\<rparr>,
           [''[+] Listening on '' @ addrs @ '' (handler='' @ str_of_name (handler l) @ '')'']))"

text \<open>
  The \<open>for\<close> loop of \<open>run_from_config\<close>, from the \<open>i\<close>-th call of \<open>start_server\<close> on:
  the servers started so far and the lines printed so far are carried along.
\<close>

fun start_all :: "startup \<Rightarrow> string \<Rightarrow> logger_fn option \<Rightarrow> listener list \<Rightarrow> nat \<Rightarrow> server list \<Rightarrow> string list \<Rightarrow> (exn + server list) \<times> string list" where
  "start_all env bind_host lg [] i servers out = (Inr servers, out)"
| "start_all env bind_host lg (l # ls) i servers out =
     (case start_listener env i bind_host l lg of
        (Inr srv, msgs) \<Rightarrow>
          start_all env bind_host lg ls (Suc i) (servers @ [srv]) (out @ msgs)
      | (Inl e, msgs) \<Rightarrow>
          if exn_class e = PermissionError then
            start_all env bind_host lg ls (Suc i) servers
              (out @ msgs @ [''Errore: permessi insufficienti per aprire porta ''
                             @ str_of_port (port l) @ ''. Usa porta >1024 o sudo.''])
          else if is_Exception e then
            start_all env bind_host lg ls (Suc i) servers
              (out @ msgs @ [''Errore creazione listener: '' @ exn_msg e])
          else (Inl e, out @ msgs))"

definition run_from_config :: "startup \<Rightarrow> config \<Rightarrow> string \<Rightarrow> (exn + server list) \<times> string list" where
  "run_from_config env cfg bind_host =
     (case logdir_result env of
        Some e \<Rightarrow> (Inl e, [])
      | None \<Rightarrow> start_all env bind_host (Some (made_logger env)) (listeners cfg) 0 [] [])"

section \<open>Notions used to state the properties\<close>

subsection \<open>Reading lowercase hexadecimal\<close>

text \<open>
  A string is the lowercase hex encoding of a byte string when reading it back two
  digits at a time, digits \<open>0-9\<close> and \<open>a-f\<close> only, gives that byte string.
\<close>

definition lower_hex_val :: "char \<Rightarrow> nat option" where
  "lower_hex_val c =
     (let b = (of_char c :: nat) in
      if 48 \<le> b \<and> b \<le> 57 then Some (b - 48)
      else if 97 \<le> b \<and> b \<le> 102 then Some (b - 87)
      else None)"

fun unhexlify_lower :: "string \<Rightarrow> bytes option" where
  "unhexlify_lower [] = Some []"
| "unhexlify_lower [h] = None"
| "unhexlify_lower (h # l # cs) =
     (case lower_hex_val h of
        None \<Rightarrow> None
      | Some a \<Rightarrow>
          (case lower_hex_val l of
             None \<Rightarrow> None
           | Some b \<Rightarrow>
               (case unhexlify_lower cs of
                  None \<Rightarrow> None
                | Some r \<Rightarrow> Some (char_of (a * 16 + b) # r))))"

subsection \<open>Banner texts made of plain characters and simple escapes\<close>








subsection \<open>What start-up reports and returns for one listener\<close>

text \<open>
  For the \<open>i\<close>-th listener of the configuration: the server handle it contributes
  (none when its bind raised) and the one line printed for it.
\<close>

definition started :: "startup \<Rightarrow> string \<Rightarrow> nat \<Rightarrow> listener \<Rightarrow> server list" where
  "started env bind_host i l =
     (case bind_result env i of
        Inl e \<Rightarrow> []
      | Inr addrs \<Rightarrow>
          [\<lparr>srv_host = bind_host, srv_listener = l, srv_logger = Some (made_logger env),
            srv_addrs = addrs\<rparr>])"

definition startup_line :: "startup \<Rightarrow> nat \<Rightarrow> listener \<Rightarrow> string" where
  "startup_line env i l =
     (case bind_result env i of
        Inr addrs \<Rightarrow>
          ''[+] Listening on '' @ addrs @ '' (handler='' @ str_of_name (handler l) @ '')''
      | Inl e \<Rightarrow>
          if exn_class e = PermissionError
          then ''Errore: permessi insufficienti per aprire porta ''
               @ str_of_port (port l) @ ''. Usa porta >1024 o sudo.''
          else ''Errore creazione listener: '' @ exn_msg e)"

subsection \<open>Observing a handler\<close>

text \<open>What a handler returned or raised, and the trace it left.\<close>

definition outcome :: "(exn + unit) \<times> world \<Rightarrow> (exn + unit) \<times> event list" where
  "outcome rw = (fst rw, trace (snd rw))"

fun is_Wrote :: "event \<Rightarrow> bool" where
  "is_Wrote (Wrote b) = True"
| "is_Wrote ev = False"

section \<open>Example connections\<close>

definition ok_logger :: logger_fn where
  "ok_logger = (\<lambda>entry. None)"

definition broken_logger :: logger_fn where
  "broken_logger = (\<lambda>entry. Some (Exn OSError ''No space left on device''))"

text \<open>A peer at 203.0.113.7:40000 that sends nothing: every read times out.\<close>

definition silent_world :: world where
  "silent_world =
     \<lparr>peername = Some (''203.0.113.7'', 40000),
      read_result = (\<lambda>i. Inl (Exn AsyncioTimeoutError [])),
      drain_result = (\<lambda>i. None),
      wait_closed_result = None,
      utcnow = (\<lambda>i. ''2024-01-01T00:00:00''),
      file_append_result = (\<lambda>entry. None),
      unicode_names = (\<lambda>name. None),
      n_read = 0, n_drain = 0, n_now = 0, trace = []\<rparr>"

text \<open>The same peer sending \<open>b"ping"\<close> and then closing.\<close>

definition ping_world :: world where
  "ping_world = silent_world\<lparr>read_result := (\<lambda>i. if i = 0 then Inr ''ping'' else Inr [])\<rparr>"

text \<open>A connection whose transport reports no peer name.\<close>

definition nopeer_world :: world where
  "nopeer_world = ping_world\<lparr>peername := None\<rparr>"

text \<open>A connection whose task is cancelled while it waits for data.\<close>

definition cancelled_world :: world where
  "cancelled_world = silent_world\<lparr>read_result := (\<lambda>i. Inl (Exn CancelledError []))\<rparr>"

definition http_listener :: listener where
  "http_listener =
     \<lparr>port = Some 80, handler = Some ''http'', proto = Some ''tcp'', banner = None,
      echo = False, service = None\<rparr>"

text \<open>
  The banner of the default configuration as the configuration file has it, ending in
  the four characters backslash, \<open>r\<close>, backslash, \<open>n\<close>, and the bytes it stands
  for, ending in CR LF.
\<close>

definition ssh_config_text :: ustr where
  "ssh_config_text =
     map of_char (''SSH-2.0-OpenSSH_7.4'' @ [CHR 0x5C, CHR ''r'', CHR 0x5C, CHR ''n''])"

definition ssh_banner :: bytes where
  "ssh_banner = ''SSH-2.0-OpenSSH_7.4'' @ [CHR 0x0D, CHR 0x0A]"

definition banner_listener :: listener where
  "banner_listener =
     \<lparr>port = Some 2222, handler = Some ''banner'', proto = Some ''tcp'',
      banner = Some ssh_config_text, echo = False, service = None\<rparr>"

definition generic_listener :: listener where
  "generic_listener =
     \<lparr>port = Some 502, handler = Some ''generic'', proto = Some ''tcp'', banner = None,
      echo = False, service = None\<rparr>"

text \<open>
  A start-up without privilege: the first bind is refused with \<open>PermissionError\<close>,
  every later one succeeds.
\<close>

definition privileged_startup :: startup where
  "privileged_startup =
     \<lparr>logdir_result = None, made_logger = ok_logger,
      bind_result = (\<lambda>i. if i = 0 then Inl (Exn PermissionError ''[Errno 13] Permission denied'')
                          else Inr ''('0.0.0.0', 2222)'')\<rparr>"




section \<open>Unfolding and evaluation rules\<close>

lemmas io_defs =
  reader_read_def read_with_timeout_def writer_write_def writer_drain_def writer_close_def
  writer_wait_closed_def now_iso_def emit_def log_interaction_def assign_peer_def
  call_logger_def

lemmas example_defs =
  silent_world_def ping_world_def nopeer_world_def cancelled_world_def ok_logger_def
  broken_logger_def http_listener_def banner_listener_def generic_listener_def accept_ctx_def

lemma hexlify_ping: "hexlify ''ping'' = ''70696e67''"
  by code_simp

lemma banner_bytes_ssh: "banner_bytes names ssh_config_text = Inr ssh_banner"
  by (simp add: ssh_config_text_def ssh_banner_def banner_bytes_def utf8_char_def escape_def
        char_of_def bit_Suc_0_iff)

lemma hexlify_ssh: "hexlify ssh_banner = ''5353482d322e302d4f70656e5353485f372e340d0a''"
  unfolding ssh_banner_def by code_simp

lemma utf8_decode_ssh:
  "utf8_decode Replace ssh_banner
     = Inr [83, 83, 72, 45, 50, 46, 48, 45, 79, 112, 101, 110, 83, 83, 72, 95, 55, 46, 52, 13, 10]"
  by (simp add: ssh_banner_def)

section \<open>Properties of the encodings\<close>

lemma lower_hex_val_hex_digit: "n < 16 \<Longrightarrow> lower_hex_val (hex_digit n) = Some n"
  by (auto simp: lower_hex_val_def hex_digit_def Let_def)

lemma unhexlify_hexlify: "unhexlify_lower (hexlify bs) = Some bs"
proof (induction bs)
  case Nil
  show ?case by simp
next
  case (Cons c cs)
  have hi: "lower_hex_val (hex_digit (of_char c div 16)) = Some (of_char c div 16)"
    by (rule lower_hex_val_hex_digit) (simp add: less_mult_imp_div_less)
  have lo: "lower_hex_val (hex_digit (of_char c mod 16)) = Some (of_char c mod 16)"
    by (rule lower_hex_val_hex_digit) simp
  have whole: "char_of ((of_char c :: nat) div 16 * 16 + of_char c mod 16) = c"
    by simp
  show ?case using Cons.IH hi lo whole by simp
qed

lemma length_hexlify: "length (hexlify bs) = 2 * length bs"
  by (induction bs) simp_all

text \<open>Decoding with \<open>errors="replace"\<close> never raises, whatever the bytes.\<close>

lemma utf8_decode_replace_total: "\<exists>s. utf8_decode Replace bs = Inr s"
proof (induction bs rule: length_induct)
  case (1 bs)
  show ?case
  proof (cases bs)
    case Nil
    then show ?thesis by simp
  next
    case (Cons c cs)
    obtain r n where nx: "utf8_next (c # cs) = (r, n)"
      by (cases "utf8_next (c # cs)")
    have "length (drop (n - 1) cs) < length bs"
      using Cons by simp
    with 1 obtain s where tl: "utf8_decode Replace (drop (n - 1) cs) = Inr s"
      by blast
    show ?thesis
      using Cons nx tl by (cases r) (simp_all del: utf8_next.simps)
  qed
qed

section \<open>\<open>log_interaction\<close>\<close>

lemma interaction_record_fields:
  "raw_hex (interaction_record c role d ts) = hexlify d"
  "rec_role (interaction_record c role d ts) = role"
  "rec_ts (interaction_record c role d ts) = ts"
  by (simp_all add: interaction_record_def Let_def split: sum.splits)

lemma interaction_record_raw_text:
  "\<exists>s. utf8_decode Replace d = Inr s \<and> raw_text (interaction_record c role d ts) = Some s"
  using utf8_decode_replace_total [of d] by (auto simp: interaction_record_def)

text \<open>
  Claim C10. Whatever the context, the role, the bytes and the state of the world,
  \<open>log_interaction\<close> hands its sink at most one record, the one built from its
  arguments; the \<open>raw_hex\<close> of that record is two lowercase hex digits per byte that
  read back as exactly the input bytes, and its \<open>raw_text\<close> is never \<open>None\<close>: it
  is the UTF-8 decoding of the bytes with replacement characters, which always exists.
\<close>

theorem log_interaction_record_encoding:
  "(let r = interaction_record c role d (utcnow w (n_now w)) in
      trace (snd (log_interaction c role d w))
        \<in> {trace w, trace w @ [Logged (Interaction r)], trace w @ [Appended (Interaction r)]}
      \<and> unhexlify_lower (raw_hex r) = Some d
      \<and> length (raw_hex r) = 2 * length d
      \<and> (\<exists>s. utf8_decode Replace d = Inr s \<and> raw_text r = Some s))"
proof -
  let ?r = "interaction_record c role d (utcnow w (n_now w))"
  have tr: "trace (snd (log_interaction c role d w))
      \<in> {trace w, trace w @ [Logged (Interaction ?r)], trace w @ [Appended (Interaction ?r)]}"
    by (simp add: log_interaction_def now_iso_def emit_def split: option.splits)
  have hx: "unhexlify_lower (raw_hex ?r) = Some d"
    by (simp add: interaction_record_fields unhexlify_hexlify)
  have ln: "length (raw_hex ?r) = 2 * length d"
    by (simp add: interaction_record_fields length_hexlify)
  show ?thesis
    using tr hx ln interaction_record_raw_text [of d c role "utcnow w (n_now w)"]
    by (simp add: Let_def)
qed

text \<open>
  Claim C2, as the code has it. \<open>log_interaction\<close> has no handler around its sink:
  with a callable logger it returns or raises as the call of the logger does, and
  without one as the append to the fallback file does. Building the record never
  raises, so the sink is the only source of an exception, and its exception reaches
  the caller unchanged.
\<close>

theorem log_interaction_raises_what_the_sink_raises:
  "(\<forall>f. ctx_logger c = Some f \<longrightarrow>
      fst (log_interaction c role d w)
        = (case f (Interaction (interaction_record c role d (utcnow w (n_now w)))) of
             None \<Rightarrow> Inr () | Some e \<Rightarrow> Inl e))
   \<and> (ctx_logger c = None \<longrightarrow>
      fst (log_interaction c role d w)
        = (case file_append_result w
                  (Interaction (interaction_record c role d (utcnow w (n_now w)))) of
             None \<Rightarrow> Inr () | Some e \<Rightarrow> Inl e))"
  by (simp add: log_interaction_def now_iso_def emit_def split: option.splits)

theorem log_interaction_raises_what_the_sink_raises_witness:
  "fst (log_interaction (accept_ctx (Some ok_logger) ping_world) ''client'' ''ping'' ping_world)
     = Inr ()
   \<and> fst (log_interaction (accept_ctx None ping_world) ''client'' ''ping'' ping_world)
     = Inr ()"
  using log_interaction_raises_what_the_sink_raises
          [of "accept_ctx (Some ok_logger) ping_world" "''client''" "''ping''" ping_world]
        log_interaction_raises_what_the_sink_raises
          [of "accept_ctx None ping_world" "''client''" "''ping''" ping_world]
  by (simp add: accept_ctx_def ping_world_def silent_world_def ok_logger_def)

text \<open>
  Claim C2, as stated, fails: a callable logger that raises \<open>OSError\<close> makes
  \<open>log_interaction\<close> raise that \<open>OSError\<close> to its caller.
\<close>

theorem log_interaction_propagates_sink_failure:
  "fst (log_interaction (accept_ctx (Some broken_logger) ping_world) ''client'' ''ping'' ping_world)
     = Inl (Exn OSError ''No space left on device'')"
  by (simp add: log_interaction_def now_iso_def emit_def accept_ctx_def ping_world_def
        silent_world_def broken_logger_def)

section \<open>Start-up\<close>

lemma start_all_enumerate:
  assumes "\<forall>j<length ls. (case bind_result env (i + j) of Inl e \<Rightarrow> is_Exception e | Inr a \<Rightarrow> True)"
  shows "start_all env bind_host (Some (made_logger env)) ls i servers out =
           (Inr (servers @ concat (map (\<lambda>(k, l). started env bind_host k l) (enumerate i ls))),
            out @ map (\<lambda>(k, l). startup_line env k l) (enumerate i ls))"
  using assms
proof (induction ls arbitrary: i servers out)
  case Nil
  show ?case by simp
next
  case (Cons l ls)
  have hd: "case bind_result env i of Inl e \<Rightarrow> is_Exception e | Inr a \<Rightarrow> True"
    using Cons.prems by (auto dest: spec [of _ 0])
  have tl: "\<forall>j<length ls. (case bind_result env (Suc i + j) of Inl e \<Rightarrow> is_Exception e | Inr a \<Rightarrow> True)"
    using Cons.prems by (auto dest: spec [of _ "Suc j" for j])
  note IH = Cons.IH [OF tl]
  show ?case
  proof (cases "bind_result env i")
    case (Inr addrs)
    then show ?thesis
      by (simp add: IH start_listener_def started_def startup_line_def)
  next
    case (Inl e)
    with hd have "is_Exception e" by simp
    with Inl show ?thesis
      by (simp add: IH start_listener_def started_def startup_line_def)
  qed
qed

text \<open>
  Claim C9. When the log directory could be prepared and every bind that fails fails
  with an exception of class \<open>Exception\<close> (as \<open>PermissionError\<close> and every other
  \<open>OSError\<close> is), \<open>run_from_config\<close> returns normally, its result holds, in order,
  the handle of every listener whose bind succeeded and of no other, and exactly one
  line is printed per listener: the listening notice, the permission diagnostic
  naming the port, or the general diagnostic. A failed bind changes nothing for the
  listeners after it.
\<close>

theorem run_from_config_starts_every_listener_that_binds:
  assumes "logdir_result env = None"
    and "\<forall>i<length (listeners cfg).
           (case bind_result env i of Inl e \<Rightarrow> is_Exception e | Inr a \<Rightarrow> True)"
  shows "fst (run_from_config env cfg bind_host)
           = Inr (concat (map (\<lambda>(i, l). started env bind_host i l) (enumerate 0 (listeners cfg))))
         \<and> snd (run_from_config env cfg bind_host)
           = map (\<lambda>(i, l). startup_line env i l) (enumerate 0 (listeners cfg))"
  using assms start_all_enumerate [of "listeners cfg" env 0 bind_host "[]" "[]"]
  by (simp add: run_from_config_def)

theorem run_from_config_starts_every_listener_that_binds_witness:
  "logdir_result privileged_startup = None
   \<and> is_Exception (Exn PermissionError ''[Errno 13] Permission denied'')
   \<and> fst (run_from_config privileged_startup
            \<lparr>listeners = [http_listener, banner_listener], log_dir = None\<rparr> ''0.0.0.0'')
       = Inr [\<lparr>srv_host = ''0.0.0.0'', srv_listener = banner_listener,
               srv_logger = Some ok_logger, srv_addrs = ''('0.0.0.0', 2222)''\<rparr>]
   \<and> snd (run_from_config privileged_startup
            \<lparr>listeners = [http_listener, banner_listener], log_dir = None\<rparr> ''0.0.0.0'')
       = [''Errore: permessi insufficienti per aprire porta 80. Usa porta >1024 o sudo.'',
          ''[+] Listening on ('0.0.0.0', 2222) (handler=banner)'']"
proof -
  have h1: "logdir_result privileged_startup = None"
    by (simp add: privileged_startup_def)
  have h2: "\<forall>i<length (listeners \<lparr>listeners = [http_listener, banner_listener], log_dir = None\<rparr>).
         (case bind_result privileged_startup i of Inl e \<Rightarrow> is_Exception e | Inr a \<Rightarrow> True)"
    by (simp add: privileged_startup_def)
  have p80: "str_of_nat 80 = ''80''"
    by code_simp
  show ?thesis
    using run_from_config_starts_every_listener_that_binds [OF h1 h2, of "''0.0.0.0''"] h1
    by (simp add: enumerate_simps started_def startup_line_def privileged_startup_def
          http_listener_def banner_listener_def str_of_port_def str_of_name_def p80)
qed

section \<open>\<open>http_handler\<close>\<close>

text \<open>
  \<open>HTTP_RESPONSE\<close> is a \<open>bytes\<close> literal, so line 56 raises \<open>AttributeError\<close>
  whenever it is reached.
\<close>

lemma py_format_HTTP_RESPONSE:
  "py_format HTTP_RESPONSE kw = Inl (Exn AttributeError ''bytes object has no attribute format'')"
  by (simp add: HTTP_RESPONSE_def)

text \<open>
  The same template as a \<open>str\<close> would format, but the header would announce the 78
  bytes of the page while 79 bytes follow the blank line, the page and the last LF of
  the template.
\<close>

lemma http_template_as_str:
  "py_format (PyStr http_template)
     [(''length'', str_of_nat (length http_body)), (''body'', http_body)]
   = Inr (''HTTP/1.1 200 OK'' @ [LF]
          @ ''Content-Type: text/html; charset=utf-8'' @ [LF]
          @ ''Content-Length: 78'' @ [LF]
          @ [LF]
          @ (http_body @ [LF]))
   \<and> length (http_body @ [LF]) = 79"
proof -
  have n: "str_of_nat (length http_body) = ''78''"
    unfolding http_body_def by code_simp
  show ?thesis
    unfolding n by (simp add: http_template_def http_body_def LF_def)
qed

text \<open>
  On every connection and in every context \<open>http_handler\<close> ends by raising, and it
  neither writes to the connection nor closes it.
\<close>

lemma http_handler_never_responds:
  "(\<exists>e. fst (http_handler w c) = Inl e)
   \<and> filter (\<lambda>ev. is_Wrote ev \<or> ev = Closed) (trace (snd (http_handler w c)))
       = filter (\<lambda>ev. is_Wrote ev \<or> ev = Closed) (trace w)"
  by (auto simp: http_handler_def io_defs py_format_HTTP_RESPONSE Let_def
        split: sum.splits option.splits prod.splits if_splits)

text \<open>
  Claim C1 fails on the code. For a peer that sends nothing within the timeout, and
  for a peer that sends \<open>b"ping"\<close>, \<open>http_handler\<close> raises \<open>AttributeError\<close> at
  line 56 and the trace holds no write: no response is sent at all.
\<close>

theorem http_handler_sends_no_response:
  "outcome (http_handler silent_world (accept_ctx (Some ok_logger) silent_world))
     = (Inl (Exn AttributeError ''bytes object has no attribute format''), [ReadCall])
   \<and> outcome (http_handler ping_world (accept_ctx (Some ok_logger) ping_world))
     = (Inl (Exn AttributeError ''bytes object has no attribute format''),
        [ReadCall,
         Logged (Interaction \<lparr>rec_ts = ''2024-01-01T00:00:00'', rec_role = ''client'',
            rec_peer = Some ''203.0.113.7'', rec_peer_port = Some 40000,
            rec_service = Some ''http'', raw_hex = ''70696e67'',
            raw_text = Some [112, 105, 110, 103]\<rparr>)])"
  by (simp add: outcome_def http_handler_def io_defs example_defs py_format_HTTP_RESPONSE
        interaction_record_def hexlify_ping del: hexlify.simps)

section \<open>Closing the connection\<close>

text \<open>
  Claim C3 fails on the code. On the HTTP listener the handler raises before
  \<open>writer.close()\<close> and the supervisor only logs the exception: the trace of the
  whole connection holds no \<open>Closed\<close>. On the banner listener with a logger that
  raises, logging the client's bytes raises before \<open>writer.close()\<close>, the supervisor's
  own call of the logger raises again, and the connection is left open as well.
\<close>

theorem writer_left_open:
  "map_option outcome (client_connected http_listener (Some ok_logger) silent_world)
     = Some (Inr (),
        [ReadCall,
         Logged (HandlerEvent \<lparr>ev_ts = ''2024-01-01T00:00:00'', ev_event = ''handler_exception'',
            ev_port = Some 80, ev_handler = Some ''http'',
            ev_error = ''bytes object has no attribute format''\<rparr>)])
   \<and> map_option outcome (client_connected banner_listener (Some broken_logger) ping_world)
     = Some (Inl (Exn OSError ''No space left on device''),
        [Wrote ssh_banner, ReadCall])"
  by (simp add: outcome_def client_connected_def run_handler_def http_handler_def banner_h_def
        banner_handler_def io_defs example_defs py_format_HTTP_RESPONSE banner_bytes_ssh)

section \<open>A transport without a peer name\<close>

text \<open>
  Claim C4 fails on the code. The supervisor's context has \<open>None\<close> for the peer
  address and port, but each of the three handlers, reading the peer name again, raises
  \<open>TypeError\<close> before it does anything else.
\<close>

theorem handlers_raise_without_peername:
  "ctx_peer (accept_ctx (Some ok_logger) nopeer_world) = None
   \<and> ctx_peer_port (accept_ctx (Some ok_logger) nopeer_world) = None
   \<and> outcome (http_handler nopeer_world (accept_ctx (Some ok_logger) nopeer_world))
       = (Inl (Exn TypeError ''NoneType object is not subscriptable''), [])
   \<and> outcome (banner_handler nopeer_world (accept_ctx (Some ok_logger) nopeer_world)
                ssh_banner)
       = (Inl (Exn TypeError ''NoneType object is not subscriptable''), [])
   \<and> map_option outcome
        (generic_tcp_handler nopeer_world (accept_ctx (Some ok_logger) nopeer_world) False)
       = Some (Inl (Exn TypeError ''NoneType object is not subscriptable''), [])"
  by (simp add: outcome_def http_handler_def banner_handler_def generic_tcp_handler_def
        io_defs example_defs)

section \<open>\<open>generic_tcp_handler\<close>\<close>

text \<open>
  Claim C6 fails on the code. With echo enabled and a peer that sends \<open>b"ping"\<close>
  and closes, the handler logs the chunk as a client record and writes it back, but
  logs no server record for what it wrote.
\<close>

theorem echo_is_not_logged:
  "map_option outcome
     (generic_tcp_handler ping_world (accept_ctx (Some ok_logger) ping_world) True)
   = Some (Inr (),
       [ReadCall,
        Logged (Interaction \<lparr>rec_ts = ''2024-01-01T00:00:00'', rec_role = ''client'',
           rec_peer = Some ''203.0.113.7'', rec_peer_port = Some 40000,
           rec_service = Some ''tcp'', raw_hex = ''70696e67'',
           raw_text = Some [112, 105, 110, 103]\<rparr>),
        Wrote ''ping'', ReadCall, Closed])"
  apply (simp add: generic_tcp_handler_def io_defs example_defs)
  apply (subst generic_loop.simps)
  apply (simp add: generic_turn_def io_defs interaction_record_def hexlify_ping
           del: hexlify.simps)
  apply (subst generic_loop.simps)
  apply (simp add: generic_turn_def io_defs outcome_def)
  done

section \<open>Read timeouts\<close>

text \<open>
  Claim C7 fails on the code for \<open>http_handler\<close>. When the read times out,
  \<open>banner_handler\<close> logs no client record, closes and returns; \<open>http_handler\<close>
  catches the timeout too, but then raises \<open>AttributeError\<close> at its next step.
\<close>

theorem timeout_then_http_handler_raises:
  "outcome (banner_handler silent_world (accept_ctx (Some ok_logger) silent_world)
              ssh_banner)
     = (Inr (),
        [Wrote ssh_banner,
         Logged (Interaction \<lparr>rec_ts = ''2024-01-01T00:00:00'', rec_role = ''server'',
            rec_peer = Some ''203.0.113.7'', rec_peer_port = Some 40000,
            rec_service = Some ''banner'',
            raw_hex = ''5353482d322e302d4f70656e5353485f372e340d0a'',
            raw_text = Some [83, 83, 72, 45, 50, 46, 48, 45, 79, 112, 101, 110, 83, 83, 72,
                             95, 55, 46, 52, 13, 10]\<rparr>),
         ReadCall, Closed])
   \<and> fst (http_handler silent_world (accept_ctx (Some ok_logger) silent_world))
     = Inl (Exn AttributeError ''bytes object has no attribute format'')"
  by (simp add: outcome_def http_handler_def banner_handler_def io_defs example_defs
        py_format_HTTP_RESPONSE interaction_record_def hexlify_ssh utf8_decode_ssh
        del: hexlify.simps)

section \<open>The supervisor\<close>




section \<open>One turn of the generic loop\<close>

text \<open>
  What the code does for each chunk it reads: it logs the chunk as a client record;
  with echo it then writes the same chunk back, and without echo it writes nothing.
  Nothing else is logged in either case.
\<close>

lemma generic_turn_echo:
  assumes "generic_turn True c w = Again w'"
  shows "\<exists>d r. d \<noteq> [] \<and> rec_role r = ''client'' \<and> raw_hex r = hexlify d
           \<and> (trace w' = trace w @ [ReadCall, Logged (Interaction r), Wrote d]
              \<or> trace w' = trace w @ [ReadCall, Appended (Interaction r), Wrote d])"
  using assms
  by (auto simp: generic_turn_def io_defs interaction_record_fields
        split: sum.splits option.splits if_splits)

lemma generic_turn_no_echo:
  assumes "generic_turn False c w = Again w'"
  shows "\<exists>d r. d \<noteq> [] \<and> rec_role r = ''client'' \<and> raw_hex r = hexlify d
           \<and> (trace w' = trace w @ [ReadCall, Logged (Interaction r)]
              \<or> trace w' = trace w @ [ReadCall, Appended (Interaction r)])"
  using assms
  by (auto simp: generic_turn_def io_defs interaction_record_fields
        split: sum.splits option.splits if_splits)

text \<open>
  The loop returns as soon as a read comes back empty or raises; each turn that goes
  round again has consumed one read. And whenever the handler returns on a connection
  with a peer name, it has closed the writer.
\<close>

lemma generic_turn_again:
  assumes "generic_turn ech c w = Again w'"
  shows "n_read w' = Suc (n_read w) \<and> read_result w' = read_result w"
  using assms
  by (auto simp: generic_turn_def io_defs split: sum.splits option.splits if_splits)

lemma generic_turn_stops:
  assumes "case read_result w (n_read w) of Inl e \<Rightarrow> True | Inr d \<Rightarrow> take 4096 d = []"
  shows "generic_turn ech c w \<noteq> Again w'"
  using assms
  by (auto simp: generic_turn_def reader_read_def split: sum.splits)

lemma generic_loop_returns:
  assumes "case read_result w (n_read w + k) of Inl e \<Rightarrow> True | Inr d \<Rightarrow> take 4096 d = []"
  shows "\<exists>r w'. generic_loop ech c w = Some (r, w')"
  using assms
proof (induction k arbitrary: w)
  case 0
  then have stop: "case read_result w (n_read w) of Inl e \<Rightarrow> True | Inr d \<Rightarrow> take 4096 d = []"
    by simp
  show ?case
  proof (cases "generic_turn ech c w")
    case (Again w1)
    with generic_turn_stops [OF stop, of ech c w1] show ?thesis by simp
  next
    case (Break w1)
    then show ?thesis by (subst generic_loop.simps) simp
  next
    case (Raised e w1)
    then show ?thesis by (subst generic_loop.simps) simp
  qed
next
  case (Suc k)
  show ?case
  proof (cases "generic_turn ech c w")
    case (Again w1)
    then have "n_read w1 = Suc (n_read w)" "read_result w1 = read_result w"
      using generic_turn_again [of ech c w w1] by simp_all
    with Suc.prems have "case read_result w1 (n_read w1 + k) of Inl e \<Rightarrow> True | Inr d \<Rightarrow> take 4096 d = []"
      by simp
    from Suc.IH [OF this] obtain r w' where "generic_loop ech c w1 = Some (r, w')"
      by blast
    then show ?thesis
      using Again by (subst generic_loop.simps) simp
  next
    case (Break w1)
    then show ?thesis by (subst generic_loop.simps) simp
  next
    case (Raised e w1)
    then show ?thesis by (subst generic_loop.simps) simp
  qed
qed

lemma generic_tcp_handler_closes:
  assumes "generic_tcp_handler w c ech = Some (r, w')" and "peername w = Some hp"
  shows "Closed \<in> set (trace w')"
  using assms
  by (cases hp)
     (auto simp: generic_tcp_handler_def assign_peer_def writer_close_def writer_wait_closed_def
        Let_def split: option.splits if_splits)

section \<open>A read that times out\<close>

text \<open>
  \<open>banner_handler\<close> on a timed-out read: no client record (at most the server
  record of the banner lies between the write and the read), then close, and a normal
  return. \<open>http_handler\<close> on a timed-out read: the timeout is caught, nothing is
  logged, and the next step raises.
\<close>

lemma banner_handler_timeout:
  assumes "peername w = Some hp"
    and "read_result w (n_read w) = Inl (Exn AsyncioTimeoutError m)"
  shows "fst (banner_handler w c b) = Inr ()
         \<and> (\<exists>pre. trace (snd (banner_handler w c b)) = trace w @ Wrote b # pre @ [ReadCall, Closed]
                \<and> length pre \<le> 1)"
  using assms
  by (cases hp) (auto simp: banner_handler_def io_defs Let_def split: option.splits)

lemma http_handler_timeout:
  assumes "peername w = Some hp"
    and "read_result w (n_read w) = Inl (Exn AsyncioTimeoutError m)"
  shows "outcome (http_handler w c)
           = (Inl (Exn AttributeError ''bytes object has no attribute format''),
              trace w @ [ReadCall])"
  using assms
  by (cases hp) (simp add: outcome_def http_handler_def io_defs py_format_HTTP_RESPONSE)

section \<open>The configured banner\<close>






















end
